theory Spec2Isabelle
  imports Complex_Main "HOL-Library.Product_Lexorder" "HOL-Library.Multiset"
begin

section \<open>Numeric cells\<close>

text \<open>
  A Python float cell is modelled as \<open>real option\<close>: \<open>Some x\<close> is a finite number and
  \<open>None\<close> stands for both \<open>None\<close> and \<open>NaN\<close>, the two forms of "unknown" that pandas'
  \<open>isna\<close> accepts. Arithmetic on known values is exact real arithmetic. A comparison with
  an unknown value is false, as a comparison with \<open>NaN\<close> is in Python and pandas.
\<close>

type_synonym cell = "real option"

definition isna :: "'a option \<Rightarrow> bool" where
  "isna v = (v = None)"

definition le_cell :: "cell \<Rightarrow> real \<Rightarrow> bool" where
  "le_cell v t = (case v of None \<Rightarrow> False | Some x \<Rightarrow> x \<le> t)"

definition ge_cell :: "cell \<Rightarrow> real \<Rightarrow> bool" where
  "ge_cell v t = (case v of None \<Rightarrow> False | Some x \<Rightarrow> x \<ge> t)"

definition between :: "cell \<Rightarrow> real \<Rightarrow> real \<Rightarrow> bool" where
  "between v lo hi = (case v of None \<Rightarrow> False | Some x \<Rightarrow> lo \<le> x \<and> x \<le> hi)"

text \<open>Python truthiness of a float cell: \<open>None\<close> and \<open>0.0\<close> are falsy. (\<open>NaN\<close> is truthy,
  but every use below is followed by a comparison, which \<open>NaN\<close> fails.)\<close>

definition truthy :: "cell \<Rightarrow> bool" where
  "truthy v = (case v of None \<Rightarrow> False | Some x \<Rightarrow> x \<noteq> 0)"

definition is_not_None :: "cell \<Rightarrow> bool" where
  "is_not_None v = (v \<noteq> None)"

section \<open>Configuration (config.py)\<close>

record UniverseConfig =
  name :: string
  limit :: "int option"

record ValuationConfig =
  min_pe :: real
  max_pe :: real
  max_pb :: real
  max_ev_ebitda :: "real option"

record GrowthConfig =
  min_revenue_cagr_3y :: real
  min_eps_cagr_3y :: real

record QualityConfig =
  min_roe :: real
  min_roce :: real
  max_debt_to_equity :: real
  min_interest_coverage :: real

record PromoterConfig =
  min_promoter_change_qoq_pct_pts :: real
  max_pledge_percent :: "real option"

record TechnicalConfig =
  price_above_200d :: bool
  sma50_above_200d :: bool
  within_pct_52w_high :: real
  rsi_min :: real
  rsi_max :: real
  min_volume_multiple_vs_50d :: real

record RunConfig =
  lookback_days :: int
  batch_size :: int
  http_timeout :: int
  single_download :: bool
  download_pause_sec :: real
  use_yahoo_info_fallback :: bool
  fundamentals_max_symbols :: "int option"

record ScreenerConfig =
  universe :: UniverseConfig
  valuation :: ValuationConfig
  growth :: GrowthConfig
  quality :: QualityConfig
  promoter :: PromoterConfig
  technical :: TechnicalConfig
  run :: RunConfig

definition DEFAULT_CONFIG :: ScreenerConfig where
  "DEFAULT_CONFIG =
     \<lparr> universe = \<lparr> name = ''NIFTY500'', limit = None \<rparr>,
       valuation = \<lparr> min_pe = 5, max_pe = 35, max_pb = 6, max_ev_ebitda = Some 20 \<rparr>,
       growth = \<lparr> min_revenue_cagr_3y = 10, min_eps_cagr_3y = 10 \<rparr>,
       quality = \<lparr> min_roe = 12, min_roce = 15, max_debt_to_equity = 8 / 10,
                   min_interest_coverage = 3 \<rparr>,
       promoter = \<lparr> min_promoter_change_qoq_pct_pts = 1 / 10, max_pledge_percent = Some 5 \<rparr>,
       technical = \<lparr> price_above_200d = True, sma50_above_200d = True,
                     within_pct_52w_high = 10, rsi_min = 45, rsi_max = 70,
                     min_volume_multiple_vs_50d = 13 / 10 \<rparr>,
       run = \<lparr> lookback_days = 420, batch_size = 50, http_timeout = 20,
               single_download = True, download_pause_sec = 8 / 10,
               use_yahoo_info_fallback = False, fundamentals_max_symbols = Some 150 \<rparr> \<rparr>"

section \<open>Snapshots of the external providers (fundamentals.py, nse.py)\<close>

record FundamentalSnapshot =
  market_cap :: cell
  pe :: cell
  pb :: cell
  roe :: cell
  roce :: cell
  debt_to_equity :: cell
  interest_coverage :: cell
  revenue_cagr_3y :: cell
  eps_cagr_3y :: cell
  ev_ebitda :: cell

record PromoterSnapshot =
  latest_percent :: cell
  prev_percent :: cell
  change_qoq_pct_pts :: cell

section \<open>Technical snapshot (technical.py)\<close>

text \<open>One row of the price history frame; a missing cell of a column is \<open>None\<close>.\<close>

record price_row =
  Close :: cell
  High :: cell
  Low :: cell
  Volume :: cell

text \<open>\<open>Series.dropna()\<close>: the known values, in order.\<close>

definition dropna :: "cell list \<Rightarrow> real list" where
  "dropna xs = [x. Some x \<leftarrow> xs]"

text \<open>
  The value of \<open>rolling(window, min_periods).mean()\<close> at the last position of a series:
  the mean of the known observations among the trailing \<open>window\<close> positions, provided
  there are at least \<open>min_periods\<close> of them.
\<close>

definition window_mean :: "nat \<Rightarrow> nat \<Rightarrow> cell list \<Rightarrow> cell" where
  "window_mean window min_periods xs =
     (let obs = dropna (drop (length xs - window) xs)
      in if min_periods \<le> length obs \<and> obs \<noteq> []
         then Some (sum_list obs / real (length obs)) else None)"

text \<open>\<open>rolling(window, min_periods).mean()\<close>: one value per position, each computed from
  the series up to and including that position.\<close>

definition rolling_mean :: "nat \<Rightarrow> nat \<Rightarrow> cell list \<Rightarrow> cell list" where
  "rolling_mean window min_periods xs =
     map (\<lambda>i. window_mean window min_periods (take (Suc i) xs)) [0..<length xs]"

definition simple_moving_average :: "real list \<Rightarrow> nat \<Rightarrow> cell list" where
  "simple_moving_average series window =
     rolling_mean window (max 1 (window div 2)) (map Some series)"

text \<open>\<open>Series.diff()\<close>: unknown at the first position, then the day-over-day change.\<close>

fun diff :: "real list \<Rightarrow> cell list" where
  "diff [] = []"
| "diff (x # xs) = None # map (\<lambda>(a, b). Some (b - a)) (zip (x # xs) xs)"

definition clip_lower0 :: "cell list \<Rightarrow> cell list" where
  "clip_lower0 ds = map (map_option (\<lambda>d. max d 0)) ds"

definition clip_upper0 :: "cell list \<Rightarrow> cell list" where
  "clip_upper0 ds = map (map_option (\<lambda>d. min d 0)) ds"

definition rsi_up :: "real list \<Rightarrow> cell list" where
  "rsi_up series = clip_lower0 (diff series)"

definition rsi_down :: "real list \<Rightarrow> cell list" where
  "rsi_down series = map (map_option (\<lambda>d. -1 * d)) (clip_upper0 (diff series))"

definition avg_gain :: "real list \<Rightarrow> nat \<Rightarrow> cell list" where
  "avg_gain series period = rolling_mean period period (rsi_up series)"

definition avg_loss :: "real list \<Rightarrow> nat \<Rightarrow> cell list" where
  "avg_loss series period = rolling_mean period period (rsi_down series)"

text \<open>\<open>avg_loss.replace(0, np.nan)\<close>.\<close>

definition replace0 :: "cell \<Rightarrow> cell" where
  "replace0 v = (if v = Some 0 then None else v)"

definition rs_cell :: "cell \<Rightarrow> cell \<Rightarrow> cell" where
  "rs_cell g l =
     (case (g, replace0 l) of (Some a, Some b) \<Rightarrow> Some (a / b) | _ \<Rightarrow> None)"

definition rsi_cell :: "cell \<Rightarrow> cell" where
  "rsi_cell rs = map_option (\<lambda>x. 100 - 100 / (1 + x)) rs"

definition rsi :: "real list \<Rightarrow> nat \<Rightarrow> cell list" where
  "rsi series period =
     map (\<lambda>(g, l). rsi_cell (rs_cell g l)) (zip (avg_gain series period) (avg_loss series period))"

text \<open>\<open>float(s.iloc[-1]) if not s.empty else np.nan\<close>.\<close>

definition last_or_nan :: "cell list \<Rightarrow> cell" where
  "last_or_nan s = (if s = [] then None else last s)"

text \<open>\<open>Series.tail(n)\<close>.\<close>

definition tail :: "nat \<Rightarrow> 'a list \<Rightarrow> 'a list" where
  "tail n xs = drop (length xs - n) xs"

text \<open>\<open>np.isfinite\<close> on a cell: known values are finite, \<open>NaN\<close> is not.\<close>

definition isfinite :: "cell \<Rightarrow> bool" where
  "isfinite v = (v \<noteq> None)"

record TechnicalSnapshot =
  close :: cell
  sma50 :: cell
  sma200 :: cell
  rsi14 :: cell
  vol :: cell
  vol50 :: cell
  high_52w :: cell
  low_52w :: cell
  price_above_200d :: bool
  sma50_above_200d :: bool
  within_10pct_52w_high :: bool
  volume_mult_vs_50d :: cell

text \<open>The snapshot dict; \<open>None\<close> is the empty dict returned for an empty frame.\<close>

definition compute_technical_snapshot :: "price_row list \<Rightarrow> TechnicalSnapshot option" where
  "compute_technical_snapshot df =
     (if df = [] then None
      else
        let close = dropna (map Close df);
            high = dropna (map High df);
            low = dropna (map Low df);
            volume = dropna (map Volume df);
            last_close = last_or_nan (map Some close);
            v_sma50 = last_or_nan (simple_moving_average close 50);
            v_sma200 = last_or_nan (simple_moving_average close 200);
            v_rsi14 = last_or_nan (rsi close 14);
            v_vol = last_or_nan (map Some volume);
            v_vol50 = last_or_nan (rolling_mean 50 10 (map Some volume));
            v_high = (if 20 \<le> length high then Some (Max (set (tail 252 high))) else None);
            v_low = (if 20 \<le> length low then Some (Min (set (tail 252 low))) else None)
        in Some
          \<lparr> TechnicalSnapshot.close = last_close,
            TechnicalSnapshot.sma50 = v_sma50,
            TechnicalSnapshot.sma200 = v_sma200,
            TechnicalSnapshot.rsi14 = v_rsi14,
            TechnicalSnapshot.vol = v_vol,
            TechnicalSnapshot.vol50 = v_vol50,
            TechnicalSnapshot.high_52w = v_high,
            TechnicalSnapshot.low_52w = v_low,
            TechnicalSnapshot.price_above_200d =
              (isfinite last_close \<and> isfinite v_sma200 \<and> the last_close > the v_sma200),
            TechnicalSnapshot.sma50_above_200d =
              (isfinite v_sma50 \<and> isfinite v_sma200 \<and> the v_sma50 > the v_sma200),
            TechnicalSnapshot.within_10pct_52w_high =
              (isfinite v_high \<and> isfinite last_close \<and> the last_close \<ge> 9 / 10 * the v_high),
            TechnicalSnapshot.volume_mult_vs_50d =
              (if isfinite v_vol \<and> isfinite v_vol50 \<and> the v_vol50 > 0
               then Some (the v_vol / the v_vol50) else None) \<rparr>)"

section \<open>Screen rows and frames (screen.py)\<close>

text \<open>
  A row of the screen is a Python dict with a fixed vocabulary of keys. Its values are
  kept in a record (an absent key and an unknown value are both \<open>None\<close>); the keys the dict
  really holds, in insertion order, are carried beside it, since they decide the columns
  of the frame built from the rows.
\<close>

record screen_row =
  ticker :: string
  close :: cell
  high_52w :: cell
  low_52w :: cell
  sma50 :: cell
  sma200 :: cell
  rsi14 :: cell
  vol :: cell
  vol50 :: cell
  price_above_200d :: "bool option"
  sma50_above_200d :: "bool option"
  within_10pct_52w_high :: "bool option"
  volume_mult_vs_50d :: cell
  within_pct_52w_high :: cell
  market_cap :: cell
  pe :: cell
  pb :: cell
  roe :: cell
  roce :: cell
  debt_to_equity :: cell
  interest_coverage :: cell
  revenue_cagr_3y :: cell
  eps_cagr_3y :: cell
  ev_ebitda :: cell
  promoter_latest_pct :: cell
  promoter_prev_pct :: cell
  promoter_change_qoq_pct_pts :: cell
  score :: cell

type_synonym row_dict = "string list \<times> screen_row"

record data_frame =
  columns :: "string list"
  rows :: "screen_row list"

definition empty :: "data_frame \<Rightarrow> bool" where
  "empty df = (rows df = [] \<or> columns df = [])"

text \<open>Appending the keys not yet present, as \<open>dict.update\<close>, \<open>dict.setdefault\<close> and the
  column union of \<open>pd.DataFrame(list of dicts)\<close> do.\<close>

definition add_keys :: "string list \<Rightarrow> string list \<Rightarrow> string list" where
  "add_keys ks new = fold (\<lambda>k acc. if k \<in> set acc then acc else acc @ [k]) new ks"

definition DataFrame :: "row_dict list \<Rightarrow> data_frame" where
  "DataFrame ds = \<lparr> columns = fold (\<lambda>d acc. add_keys acc (fst d)) ds [], rows = map snd ds \<rparr>"

definition snapshot_keys :: "string list" where
  "snapshot_keys =
     [''close'', ''sma50'', ''sma200'', ''rsi14'', ''vol'', ''vol50'', ''high_52w'', ''low_52w'',
      ''price_above_200d'', ''sma50_above_200d'', ''within_10pct_52w_high'',
      ''volume_mult_vs_50d'']"

definition default_keys :: "string list" where
  "default_keys =
     [''close'', ''high_52w'', ''low_52w'', ''sma50'', ''sma200'', ''rsi14'', ''vol'', ''vol50'',
      ''price_above_200d'', ''sma50_above_200d'', ''volume_mult_vs_50d'']"

definition fundamental_keys :: "string list" where
  "fundamental_keys =
     [''market_cap'', ''pe'', ''pb'', ''roe'', ''roce'', ''debt_to_equity'', ''interest_coverage'',
      ''revenue_cagr_3y'', ''eps_cagr_3y'', ''ev_ebitda'']"

definition promoter_keys :: "string list" where
  "promoter_keys = [''promoter_latest_pct'', ''promoter_prev_pct'', ''promoter_change_qoq_pct_pts'']"

definition expected_cols :: "string list" where
  "expected_cols =
     [''market_cap'', ''pe'', ''pb'', ''roe'', ''roce'', ''debt_to_equity'', ''interest_coverage'',
      ''revenue_cagr_3y'', ''eps_cagr_3y'', ''ev_ebitda'',
      ''promoter_change_qoq_pct_pts'', ''promoter_latest_pct'', ''promoter_prev_pct'',
      ''price_above_200d'', ''sma50_above_200d'', ''within_pct_52w_high'', ''rsi14'',
      ''volume_mult_vs_50d'']"

text \<open>\<open>(1.0 - close / high_52w) * 100.0\<close> when both are truthy, else \<open>None\<close>.\<close>

definition pct_below_high :: "cell \<Rightarrow> cell \<Rightarrow> cell" where
  "pct_below_high c h =
     (if truthy c \<and> truthy h then Some ((1 - the c / the h) * 100) else None)"

text \<open>
  The body of the first loop of \<open>run_screen\<close>: the technical-only row of one symbol.
  \<open>hist_all\<close> is the downloaded history per symbol; a symbol without history has the
  empty frame.
\<close>

definition tech_row :: "(string \<Rightarrow> price_row list) \<Rightarrow> string \<Rightarrow> row_dict" where
  "tech_row hist_all yticker =
     (let tech_df = hist_all yticker;
          tech = (if tech_df \<noteq> [] then compute_technical_snapshot tech_df else None);
          base_keys = add_keys [''ticker''] (case tech of None \<Rightarrow> [] | Some t \<Rightarrow> snapshot_keys);
          base_keys = add_keys base_keys default_keys;
          base_keys = add_keys base_keys [''within_pct_52w_high''];
          v_close = Option.bind tech TechnicalSnapshot.close;
          v_high = Option.bind tech TechnicalSnapshot.high_52w
      in (base_keys,
          \<lparr> ticker = yticker,
            close = v_close,
            high_52w = v_high,
            low_52w = Option.bind tech TechnicalSnapshot.low_52w,
            sma50 = Option.bind tech TechnicalSnapshot.sma50,
            sma200 = Option.bind tech TechnicalSnapshot.sma200,
            rsi14 = Option.bind tech TechnicalSnapshot.rsi14,
            vol = Option.bind tech TechnicalSnapshot.vol,
            vol50 = Option.bind tech TechnicalSnapshot.vol50,
            price_above_200d = map_option TechnicalSnapshot.price_above_200d tech,
            sma50_above_200d = map_option TechnicalSnapshot.sma50_above_200d tech,
            within_10pct_52w_high = map_option TechnicalSnapshot.within_10pct_52w_high tech,
            volume_mult_vs_50d = Option.bind tech TechnicalSnapshot.volume_mult_vs_50d,
            within_pct_52w_high = pct_below_high v_close v_high,
            market_cap = None, pe = None, pb = None, roe = None, roce = None,
            debt_to_equity = None, interest_coverage = None, revenue_cagr_3y = None,
            eps_cagr_3y = None, ev_ebitda = None,
            promoter_latest_pct = None, promoter_prev_pct = None,
            promoter_change_qoq_pct_pts = None,
            score = None \<rparr>))"

subsection \<open>Prefilter and hard filter\<close>

text \<open>The mask of the technical prefilter, one conjunct per \<open>mask &= ...\<close> line.\<close>

definition prefilter_mask :: "TechnicalConfig \<Rightarrow> screen_row \<Rightarrow> bool" where
  "prefilter_mask tc r =
     ((if TechnicalConfig.price_above_200d tc then price_above_200d r = Some True else True) \<and>
      (if TechnicalConfig.sma50_above_200d tc then sma50_above_200d r = Some True else True) \<and>
      (le_cell (within_pct_52w_high r) (TechnicalConfig.within_pct_52w_high tc)
         \<or> isna (within_pct_52w_high r)) \<and>
      (between (rsi14 r) (rsi_min tc) (rsi_max tc) \<or> isna (rsi14 r)) \<and>
      (ge_cell (volume_mult_vs_50d r) (min_volume_multiple_vs_50d tc)
         \<or> isna (volume_mult_vs_50d r)))"

definition prefilter :: "ScreenerConfig \<Rightarrow> bool \<Rightarrow> data_frame \<Rightarrow> data_frame" where
  "prefilter cfg for_buy df =
     (if for_buy \<and> \<not> empty df
      then df\<lparr> rows := filter (prefilter_mask (technical cfg)) (rows df) \<rparr>
      else df)"

text \<open>The mask of the hard filter.\<close>

definition hard_mask :: "ScreenerConfig \<Rightarrow> screen_row \<Rightarrow> bool" where
  "hard_mask cfg r =
     (let vc = valuation cfg; gc = growth cfg; qc = quality cfg; pc = promoter cfg;
          tc = technical cfg
      in (between (pe r) (min_pe vc) (max_pe vc) \<or> isna (pe r)) \<and>
         (le_cell (pb r) (max_pb vc) \<or> isna (pb r)) \<and>
         (case max_ev_ebitda vc of None \<Rightarrow> True
          | Some m \<Rightarrow> le_cell (ev_ebitda r) m \<or> isna (ev_ebitda r)) \<and>
         (ge_cell (revenue_cagr_3y r) (min_revenue_cagr_3y gc) \<or> isna (revenue_cagr_3y r)) \<and>
         (ge_cell (eps_cagr_3y r) (min_eps_cagr_3y gc) \<or> isna (eps_cagr_3y r)) \<and>
         (ge_cell (roe r) (min_roe qc) \<or> isna (roe r)) \<and>
         (ge_cell (roce r) (min_roce qc) \<or> isna (roce r)) \<and>
         (le_cell (debt_to_equity r) (max_debt_to_equity qc) \<or> isna (debt_to_equity r)) \<and>
         (ge_cell (interest_coverage r) (min_interest_coverage qc)
            \<or> isna (interest_coverage r)) \<and>
         (ge_cell (promoter_change_qoq_pct_pts r) (min_promoter_change_qoq_pct_pts pc)
            \<or> isna (promoter_change_qoq_pct_pts r)) \<and>
         (if TechnicalConfig.price_above_200d tc then price_above_200d r = Some True
          else True) \<and>
         (if TechnicalConfig.sma50_above_200d tc then sma50_above_200d r = Some True
          else True) \<and>
         (le_cell (within_pct_52w_high r) (TechnicalConfig.within_pct_52w_high tc)
            \<or> isna (within_pct_52w_high r)) \<and>
         (between (rsi14 r) (rsi_min tc) (rsi_max tc) \<or> isna (rsi14 r)) \<and>
         (ge_cell (volume_mult_vs_50d r) (min_volume_multiple_vs_50d tc)
            \<or> isna (volume_mult_vs_50d r)))"

definition hard_filter :: "ScreenerConfig \<Rightarrow> bool \<Rightarrow> data_frame \<Rightarrow> data_frame" where
  "hard_filter cfg for_buy df =
     (if for_buy \<and> \<not> empty df
      then df\<lparr> rows := filter (hard_mask cfg) (rows df) \<rparr>
      else df)"

subsection \<open>Scorer\<close>

definition score_buy_row :: "screen_row \<Rightarrow> ScreenerConfig \<Rightarrow> real" where
  "score_buy_row row cfg =
     (let s = 0;
          s = (if truthy (pe row)
                  \<and> between (pe row) (min_pe (valuation cfg)) (max_pe (valuation cfg))
               then s + 1 else s);
          s = (if truthy (pb row) \<and> le_cell (pb row) (max_pb (valuation cfg))
               then s + 1 else s);
          s = (if truthy (ev_ebitda row) \<and> truthy (max_ev_ebitda (valuation cfg))
                  \<and> le_cell (ev_ebitda row) (the (max_ev_ebitda (valuation cfg)))
               then s + 1 else s);
          s = (if truthy (revenue_cagr_3y row)
                  \<and> ge_cell (revenue_cagr_3y row) (min_revenue_cagr_3y (growth cfg))
               then s + 1 else s);
          s = (if truthy (eps_cagr_3y row)
                  \<and> ge_cell (eps_cagr_3y row) (min_eps_cagr_3y (growth cfg))
               then s + 1 else s);
          s = (if truthy (roe row) \<and> ge_cell (roe row) (min_roe (quality cfg))
               then s + 1 else s);
          s = (if truthy (roce row) \<and> ge_cell (roce row) (min_roce (quality cfg))
               then s + 1 else s);
          s = (if is_not_None (debt_to_equity row)
                  \<and> le_cell (debt_to_equity row) (max_debt_to_equity (quality cfg))
               then s + 1 else s);
          s = (if truthy (interest_coverage row)
                  \<and> ge_cell (interest_coverage row) (min_interest_coverage (quality cfg))
               then s + 1 else s);
          s = (if is_not_None (promoter_change_qoq_pct_pts row)
                  \<and> ge_cell (promoter_change_qoq_pct_pts row)
                       (min_promoter_change_qoq_pct_pts (promoter cfg))
               then s + 1 else s);
          s = (if price_above_200d row = Some True then s + 1 else s);
          s = (if sma50_above_200d row = Some True then s + 1 else s);
          s = (if is_not_None (within_pct_52w_high row)
                  \<and> le_cell (within_pct_52w_high row)
                       (TechnicalConfig.within_pct_52w_high (technical cfg))
               then s + 1 else s);
          s = (if truthy (rsi14 row)
                  \<and> between (rsi14 row) (rsi_min (technical cfg)) (rsi_max (technical cfg))
               then s + 1 / 2 else s);
          s = (if truthy (volume_mult_vs_50d row)
                  \<and> ge_cell (volume_mult_vs_50d row) (min_volume_multiple_vs_50d (technical cfg))
               then s + 1 / 2 else s)
      in s)"

subsection \<open>The pipeline\<close>

text \<open>The Python slice \<open>xs[:n]\<close> for an integer \<open>n\<close>; a negative \<open>n\<close> drops from the end.\<close>

definition slice_to :: "int \<Rightarrow> 'a list \<Rightarrow> 'a list" where
  "slice_to n xs = (if 0 \<le> n then take (nat n) xs else take (length xs - nat (- n)) xs)"

text \<open>\<open>yticker.replace(".NS", "")\<close>: every occurrence is removed, left to right.\<close>

fun replace_NS :: "string \<Rightarrow> string" where
  "replace_NS (a # b # c # cs) =
     (if [a, b, c] = ''.NS'' then replace_NS cs else a # replace_NS (b # c # cs))"
| "replace_NS cs = cs"

text \<open>The dict \<open>{"ticker": yticker}\<close>, the default of the lookup in \<open>tech_map\<close>.\<close>

definition ticker_only :: "string \<Rightarrow> row_dict" where
  "ticker_only yticker =
     ([''ticker''],
      \<lparr> ticker = yticker, close = None, high_52w = None, low_52w = None, sma50 = None,
        sma200 = None, rsi14 = None, vol = None, vol50 = None, price_above_200d = None,
        sma50_above_200d = None, within_10pct_52w_high = None, volume_mult_vs_50d = None,
        within_pct_52w_high = None, market_cap = None, pe = None, pb = None, roe = None,
        roce = None, debt_to_equity = None, interest_coverage = None,
        revenue_cagr_3y = None, eps_cagr_3y = None, ev_ebitda = None,
        promoter_latest_pct = None, promoter_prev_pct = None,
        promoter_change_qoq_pct_pts = None, score = None \<rparr>)"

text \<open>\<open>{r["ticker"]: r for r in tech_rows}\<close>: a later row replaces an earlier one of the
  same ticker.\<close>

definition tech_map_of :: "row_dict list \<Rightarrow> string \<Rightarrow> row_dict option" where
  "tech_map_of tech_rows = map_of (rev (map (\<lambda>d. (ticker (snd d), d)) tech_rows))"

text \<open>
  The body of the enrichment loop. \<open>f\<close> is the fundamental snapshot of the symbol and
  \<open>prom\<close> its promoter snapshot, \<open>None\<close> when the provider returned nothing or raised.
\<close>

definition enrich_row :: "FundamentalSnapshot \<Rightarrow> PromoterSnapshot option \<Rightarrow> row_dict \<Rightarrow> row_dict" where
  "enrich_row f prom base =
     (add_keys (add_keys (fst base) fundamental_keys) promoter_keys,
      (snd base)
        \<lparr> market_cap := FundamentalSnapshot.market_cap f,
          pe := FundamentalSnapshot.pe f,
          pb := FundamentalSnapshot.pb f,
          roe := FundamentalSnapshot.roe f,
          roce := FundamentalSnapshot.roce f,
          debt_to_equity := FundamentalSnapshot.debt_to_equity f,
          interest_coverage := FundamentalSnapshot.interest_coverage f,
          revenue_cagr_3y := FundamentalSnapshot.revenue_cagr_3y f,
          eps_cagr_3y := FundamentalSnapshot.eps_cagr_3y f,
          ev_ebitda := FundamentalSnapshot.ev_ebitda f,
          promoter_latest_pct := Option.bind prom latest_percent,
          promoter_prev_pct := Option.bind prom prev_percent,
          promoter_change_qoq_pct_pts := Option.bind prom change_qoq_pct_pts \<rparr>)"

text \<open>\<open>for col in expected_cols: if col not in df.columns: df[col] = np.nan\<close>. A column
  the frame lacks is \<open>None\<close> in every row record already, so only the columns change.\<close>

definition ensure_expected :: "data_frame \<Rightarrow> data_frame" where
  "ensure_expected df = df\<lparr> columns := add_keys (columns df) expected_cols \<rparr>"

text \<open>Sort key of one column for \<open>ascending=False\<close> with unknown values last.\<close>

definition desc_key :: "cell \<Rightarrow> bool \<times> real" where
  "desc_key v = (case v of None \<Rightarrow> (True, 0) | Some x \<Rightarrow> (False, - x))"

definition sort_rank :: "screen_row \<Rightarrow> (bool \<times> real) \<times> (bool \<times> real)" where
  "sort_rank r = (desc_key (score r), desc_key (market_cap r))"

text \<open>\<open>df.assign(score=scores)\<close> on one row.\<close>

definition assign_score :: "ScreenerConfig \<Rightarrow> screen_row \<Rightarrow> screen_row" where
  "assign_score cfg r = r\<lparr> score := Some (score_buy_row r cfg) \<rparr>"

text \<open>\<open>df.assign(score=scores).sort_values(["score", "market_cap"], ascending=[False, False])\<close>;
  the sort of several columns is stable.\<close>

definition score_and_sort :: "ScreenerConfig \<Rightarrow> data_frame \<Rightarrow> data_frame" where
  "score_and_sort cfg df =
     (if \<not> empty df
      then \<lparr> columns = add_keys (columns df) [''score''],
             rows = sort_key sort_rank (map (assign_score cfg) (rows df)) \<rparr>
      else df)"

text \<open>The symbols that are enriched: the tickers of the frame (none if it is empty), cut
  to the configured maximum.\<close>

definition symbols_for_funda :: "ScreenerConfig \<Rightarrow> data_frame \<Rightarrow> string list" where
  "symbols_for_funda cfg df =
     (let syms = (if \<not> empty df then map ticker (rows df) else [])
      in case fundamentals_max_symbols (run cfg) of None \<Rightarrow> syms
         | Some n \<Rightarrow> slice_to n syms)"

text \<open>
  The enrichment loop. \<open>fundamentals\<close> is \<open>compute_fundamental_snapshot\<close> and \<open>promoters\<close>
  is \<open>fetch_promoter_shareholding_percent\<close> with an exception mapped to \<open>None\<close>.
\<close>

definition enriched_rows ::
  "ScreenerConfig \<Rightarrow> (string \<Rightarrow> bool \<Rightarrow> FundamentalSnapshot) \<Rightarrow>
   (string \<Rightarrow> PromoterSnapshot option) \<Rightarrow> row_dict list \<Rightarrow> string list \<Rightarrow> row_dict list" where
  "enriched_rows cfg fundamentals promoters tech_rows syms =
     (let tech_map = tech_map_of tech_rows
      in map (\<lambda>yticker.
                enrich_row (fundamentals yticker (use_yahoo_info_fallback (run cfg)))
                  (promoters (replace_NS yticker))
                  (case tech_map yticker of Some d \<Rightarrow> d | None \<Rightarrow> ticker_only yticker))
           syms)"

text \<open>
  \<open>run_screen\<close> after the download: \<open>hist_all\<close> is the downloaded history per symbol
  (the empty frame where there is none).
\<close>

definition run_screen ::
  "string list \<Rightarrow> ScreenerConfig \<Rightarrow> bool \<Rightarrow> (string \<Rightarrow> price_row list) \<Rightarrow>
   (string \<Rightarrow> bool \<Rightarrow> FundamentalSnapshot) \<Rightarrow> (string \<Rightarrow> PromoterSnapshot option) \<Rightarrow>
   data_frame" where
  "run_screen symbols cfg for_buy hist_all fundamentals promoters =
     (let tech_rows = map (tech_row hist_all) symbols;
          df = DataFrame tech_rows;
          df = prefilter cfg for_buy df;
          syms = symbols_for_funda cfg df;
          enriched = enriched_rows cfg fundamentals promoters tech_rows syms;
          df = (if enriched \<noteq> [] then DataFrame enriched else DataFrame tech_rows);
          df = ensure_expected df;
          df = hard_filter cfg for_buy df;
          df = score_and_sort cfg df
      in df)"

section \<open>Universe provider (universe.py)\<close>
















section \<open>Signals\<close>

text \<open>
  The fifteen signals the scorer reads, for stating properties of one signal at a time:
  thirteen numeric cells and two boolean flags, with the access and the update of the
  cell of a signal in a row.
\<close>

datatype num_signal =
  S_pe | S_pb | S_ev_ebitda | S_revenue_cagr_3y | S_eps_cagr_3y | S_roe | S_roce
  | S_debt_to_equity | S_interest_coverage | S_promoter_change_qoq_pct_pts
  | S_within_pct_52w_high | S_rsi14 | S_volume_mult_vs_50d

datatype flag_signal = S_price_above_200d | S_sma50_above_200d

fun get_num :: "num_signal \<Rightarrow> screen_row \<Rightarrow> cell" where
  "get_num S_pe r = pe r"
| "get_num S_pb r = pb r"
| "get_num S_ev_ebitda r = ev_ebitda r"
| "get_num S_revenue_cagr_3y r = revenue_cagr_3y r"
| "get_num S_eps_cagr_3y r = eps_cagr_3y r"
| "get_num S_roe r = roe r"
| "get_num S_roce r = roce r"
| "get_num S_debt_to_equity r = debt_to_equity r"
| "get_num S_interest_coverage r = interest_coverage r"
| "get_num S_promoter_change_qoq_pct_pts r = promoter_change_qoq_pct_pts r"
| "get_num S_within_pct_52w_high r = within_pct_52w_high r"
| "get_num S_rsi14 r = rsi14 r"
| "get_num S_volume_mult_vs_50d r = volume_mult_vs_50d r"

fun set_num :: "num_signal \<Rightarrow> cell \<Rightarrow> screen_row \<Rightarrow> screen_row" where
  "set_num S_pe v r = r\<lparr> pe := v \<rparr>"
| "set_num S_pb v r = r\<lparr> pb := v \<rparr>"
| "set_num S_ev_ebitda v r = r\<lparr> ev_ebitda := v \<rparr>"
| "set_num S_revenue_cagr_3y v r = r\<lparr> revenue_cagr_3y := v \<rparr>"
| "set_num S_eps_cagr_3y v r = r\<lparr> eps_cagr_3y := v \<rparr>"
| "set_num S_roe v r = r\<lparr> roe := v \<rparr>"
| "set_num S_roce v r = r\<lparr> roce := v \<rparr>"
| "set_num S_debt_to_equity v r = r\<lparr> debt_to_equity := v \<rparr>"
| "set_num S_interest_coverage v r = r\<lparr> interest_coverage := v \<rparr>"
| "set_num S_promoter_change_qoq_pct_pts v r = r\<lparr> promoter_change_qoq_pct_pts := v \<rparr>"
| "set_num S_within_pct_52w_high v r = r\<lparr> within_pct_52w_high := v \<rparr>"
| "set_num S_rsi14 v r = r\<lparr> rsi14 := v \<rparr>"
| "set_num S_volume_mult_vs_50d v r = r\<lparr> volume_mult_vs_50d := v \<rparr>"

fun get_flag :: "flag_signal \<Rightarrow> screen_row \<Rightarrow> bool option" where
  "get_flag S_price_above_200d r = price_above_200d r"
| "get_flag S_sma50_above_200d r = sma50_above_200d r"

fun set_flag :: "flag_signal \<Rightarrow> bool option \<Rightarrow> screen_row \<Rightarrow> screen_row" where
  "set_flag S_price_above_200d v r = r\<lparr> price_above_200d := v \<rparr>"
| "set_flag S_sma50_above_200d v r = r\<lparr> sma50_above_200d := v \<rparr>"

text \<open>The favourable threshold of a numeric signal, as the thresholds of the hard filter
  state it: whether a known value meets it.\<close>

fun favorable :: "ScreenerConfig \<Rightarrow> num_signal \<Rightarrow> real \<Rightarrow> bool" where
  "favorable cfg S_pe x = (min_pe (valuation cfg) \<le> x \<and> x \<le> max_pe (valuation cfg))"
| "favorable cfg S_pb x = (x \<le> max_pb (valuation cfg))"
| "favorable cfg S_ev_ebitda x =
     (case max_ev_ebitda (valuation cfg) of None \<Rightarrow> True | Some m \<Rightarrow> x \<le> m)"
| "favorable cfg S_revenue_cagr_3y x = (x \<ge> min_revenue_cagr_3y (growth cfg))"
| "favorable cfg S_eps_cagr_3y x = (x \<ge> min_eps_cagr_3y (growth cfg))"
| "favorable cfg S_roe x = (x \<ge> min_roe (quality cfg))"
| "favorable cfg S_roce x = (x \<ge> min_roce (quality cfg))"
| "favorable cfg S_debt_to_equity x = (x \<le> max_debt_to_equity (quality cfg))"
| "favorable cfg S_interest_coverage x = (x \<ge> min_interest_coverage (quality cfg))"
| "favorable cfg S_promoter_change_qoq_pct_pts x =
     (x \<ge> min_promoter_change_qoq_pct_pts (promoter cfg))"
| "favorable cfg S_within_pct_52w_high x =
     (x \<le> TechnicalConfig.within_pct_52w_high (technical cfg))"
| "favorable cfg S_rsi14 x = (rsi_min (technical cfg) \<le> x \<and> x \<le> rsi_max (technical cfg))"
| "favorable cfg S_volume_mult_vs_50d x = (x \<ge> min_volume_multiple_vs_50d (technical cfg))"


text \<open>The points one signal earns in \<open>score_buy_row\<close>: the condition and the weight of its
  \<open>if\<close> statement.\<close>

fun num_points :: "ScreenerConfig \<Rightarrow> num_signal \<Rightarrow> cell \<Rightarrow> real" where
  "num_points cfg S_pe v =
     (if truthy v \<and> between v (min_pe (valuation cfg)) (max_pe (valuation cfg)) then 1 else 0)"
| "num_points cfg S_pb v = (if truthy v \<and> le_cell v (max_pb (valuation cfg)) then 1 else 0)"
| "num_points cfg S_ev_ebitda v =
     (if truthy v \<and> truthy (max_ev_ebitda (valuation cfg))
         \<and> le_cell v (the (max_ev_ebitda (valuation cfg))) then 1 else 0)"
| "num_points cfg S_revenue_cagr_3y v =
     (if truthy v \<and> ge_cell v (min_revenue_cagr_3y (growth cfg)) then 1 else 0)"
| "num_points cfg S_eps_cagr_3y v =
     (if truthy v \<and> ge_cell v (min_eps_cagr_3y (growth cfg)) then 1 else 0)"
| "num_points cfg S_roe v = (if truthy v \<and> ge_cell v (min_roe (quality cfg)) then 1 else 0)"
| "num_points cfg S_roce v = (if truthy v \<and> ge_cell v (min_roce (quality cfg)) then 1 else 0)"
| "num_points cfg S_debt_to_equity v =
     (if is_not_None v \<and> le_cell v (max_debt_to_equity (quality cfg)) then 1 else 0)"
| "num_points cfg S_interest_coverage v =
     (if truthy v \<and> ge_cell v (min_interest_coverage (quality cfg)) then 1 else 0)"
| "num_points cfg S_promoter_change_qoq_pct_pts v =
     (if is_not_None v \<and> ge_cell v (min_promoter_change_qoq_pct_pts (promoter cfg))
      then 1 else 0)"
| "num_points cfg S_within_pct_52w_high v =
     (if is_not_None v \<and> le_cell v (TechnicalConfig.within_pct_52w_high (technical cfg))
      then 1 else 0)"
| "num_points cfg S_rsi14 v =
     (if truthy v \<and> between v (rsi_min (technical cfg)) (rsi_max (technical cfg))
      then 1 / 2 else 0)"
| "num_points cfg S_volume_mult_vs_50d v =
     (if truthy v \<and> ge_cell v (min_volume_multiple_vs_50d (technical cfg)) then 1 / 2 else 0)"

definition flag_points :: "bool option \<Rightarrow> real" where
  "flag_points b = (if b = Some True then 1 else 0)"

definition num_signals :: "num_signal list" where
  "num_signals =
     [S_pe, S_pb, S_ev_ebitda, S_revenue_cagr_3y, S_eps_cagr_3y, S_roe, S_roce,
      S_debt_to_equity, S_interest_coverage, S_promoter_change_qoq_pct_pts,
      S_within_pct_52w_high, S_rsi14, S_volume_mult_vs_50d]"

definition flag_signals :: "flag_signal list" where
  "flag_signals = [S_price_above_200d, S_sma50_above_200d]"

text \<open>The fifteen weights in the order of the \<open>if\<close> statements of the scorer, the
  conditions of those statements, and the sum of the weights whose condition holds.\<close>

definition weights :: "real list" where
  "weights = [1, 1, 1, 1, 1, 1, 1, 1, 1, 1, 1, 1, 1, 1 / 2, 1 / 2]"

definition hits :: "screen_row \<Rightarrow> ScreenerConfig \<Rightarrow> bool list" where
  "hits row cfg =
    [truthy (pe row) \<and> between (pe row) (min_pe (valuation cfg)) (max_pe (valuation cfg)),
     truthy (pb row) \<and> le_cell (pb row) (max_pb (valuation cfg)),
     truthy (ev_ebitda row) \<and> truthy (max_ev_ebitda (valuation cfg))
        \<and> le_cell (ev_ebitda row) (the (max_ev_ebitda (valuation cfg))),
     truthy (revenue_cagr_3y row) \<and> ge_cell (revenue_cagr_3y row) (min_revenue_cagr_3y (growth cfg)),
     truthy (eps_cagr_3y row) \<and> ge_cell (eps_cagr_3y row) (min_eps_cagr_3y (growth cfg)),
     truthy (roe row) \<and> ge_cell (roe row) (min_roe (quality cfg)),
     truthy (roce row) \<and> ge_cell (roce row) (min_roce (quality cfg)),
     is_not_None (debt_to_equity row) \<and> le_cell (debt_to_equity row) (max_debt_to_equity (quality cfg)),
     truthy (interest_coverage row) \<and> ge_cell (interest_coverage row) (min_interest_coverage (quality cfg)),
     is_not_None (promoter_change_qoq_pct_pts row)
        \<and> ge_cell (promoter_change_qoq_pct_pts row) (min_promoter_change_qoq_pct_pts (promoter cfg)),
     price_above_200d row = Some True,
     sma50_above_200d row = Some True,
     is_not_None (within_pct_52w_high row)
        \<and> le_cell (within_pct_52w_high row) (TechnicalConfig.within_pct_52w_high (technical cfg)),
     truthy (rsi14 row) \<and> between (rsi14 row) (rsi_min (technical cfg)) (rsi_max (technical cfg)),
     truthy (volume_mult_vs_50d row)
        \<and> ge_cell (volume_mult_vs_50d row) (min_volume_multiple_vs_50d (technical cfg))]"

definition points :: "bool list \<Rightarrow> real" where
  "points hs = (\<Sum>(h, w) \<leftarrow> zip hs weights. if h then w else 0)"


section \<open>Ordering and columns of the output\<close>

text \<open>The order the output is to have: a higher score first; among equal scores a higher
  market capitalization first, and a known one before an unknown one.\<close>

definition ranks_before :: "screen_row \<Rightarrow> screen_row \<Rightarrow> bool" where
  "ranks_before a b =
     (case (score a, score b) of
        (Some x, Some y) \<Rightarrow>
          x > y \<or>
          (x = y \<and>
           (case (market_cap a, market_cap b) of
              (Some m, Some n) \<Rightarrow> m \<ge> n
            | (Some m, None) \<Rightarrow> True
            | (None, Some n) \<Rightarrow> False
            | (None, None) \<Rightarrow> True))
      | _ \<Rightarrow> False)"


text \<open>Providers that know nothing about any symbol.\<close>

definition no_history :: "string \<Rightarrow> price_row list" where
  "no_history s = []"

definition unknown_fundamentals :: FundamentalSnapshot where
  "unknown_fundamentals =
     \<lparr> FundamentalSnapshot.market_cap = None, FundamentalSnapshot.pe = None,
       FundamentalSnapshot.pb = None, FundamentalSnapshot.roe = None,
       FundamentalSnapshot.roce = None, FundamentalSnapshot.debt_to_equity = None,
       FundamentalSnapshot.interest_coverage = None,
       FundamentalSnapshot.revenue_cagr_3y = None, FundamentalSnapshot.eps_cagr_3y = None,
       FundamentalSnapshot.ev_ebitda = None \<rparr>"

definition no_promoters :: "string \<Rightarrow> PromoterSnapshot option" where
  "no_promoters s = None"

text \<open>Three symbols for concrete runs: all three have a favourable price-to-book ratio,
  the third also a favourable price-to-earnings ratio; the market capitalization of the
  first is unknown.\<close>

definition example_fundamentals :: "string \<Rightarrow> bool \<Rightarrow> FundamentalSnapshot" where
  "example_fundamentals s fallback =
     (if s = ''A.NS'' then unknown_fundamentals\<lparr> FundamentalSnapshot.pb := Some 1 \<rparr>
      else if s = ''B.NS''
      then unknown_fundamentals\<lparr> FundamentalSnapshot.pb := Some 1,
             FundamentalSnapshot.market_cap := Some 100 \<rparr>
      else unknown_fundamentals\<lparr> FundamentalSnapshot.pb := Some 1,
             FundamentalSnapshot.pe := Some 20, FundamentalSnapshot.market_cap := Some 5 \<rparr>)"

section \<open>Frames and keys\<close>

lemma set_add_keys: "set (add_keys ks new) = set ks \<union> set new"
  unfolding add_keys_def by (induction new arbitrary: ks) auto

lemma add_keys_eq_Nil: "add_keys ks new = [] \<longleftrightarrow> ks = [] \<and> new = []"
  using set_add_keys[of ks new] by (metis Un_empty set_empty)

lemma set_fold_add_keys:
  "set (fold (\<lambda>d acc. add_keys acc (fst d)) ds acc) = set acc \<union> (\<Union>d\<in>set ds. set (fst d))"
  by (induction ds arbitrary: acc) (auto simp: set_add_keys)

lemma set_columns_DataFrame: "set (columns (DataFrame ds)) = (\<Union>d\<in>set ds. set (fst d))"
  by (simp add: DataFrame_def set_fold_add_keys)

lemma rows_DataFrame: "rows (DataFrame ds) = map snd ds"
  by (simp add: DataFrame_def)

lemma ticker_key_tech_row: "''ticker'' \<in> set (fst (tech_row hist_all s))"
  by (simp add: tech_row_def Let_def set_add_keys)

lemma ticker_tech_row: "ticker (snd (tech_row hist_all s)) = s"
  by (simp add: tech_row_def Let_def)

lemma empty_DataFrame_tech_rows:
  "empty (DataFrame (map (tech_row hist_all) symbols)) \<longleftrightarrow> symbols = []"
proof (cases symbols)
  case Nil
  then show ?thesis by (simp add: empty_def rows_DataFrame)
next
  case (Cons s ss)
  have "''ticker'' \<in> set (columns (DataFrame (map (tech_row hist_all) symbols)))"
    unfolding set_columns_DataFrame using Cons ticker_key_tech_row[of hist_all s] by auto
  then have "columns (DataFrame (map (tech_row hist_all) symbols)) \<noteq> []" by auto
  with Cons show ?thesis by (simp add: empty_def rows_DataFrame)
qed

lemma snd_tech_row_no_history:
  "hist_all s = [] \<Longrightarrow> snd (tech_row hist_all s) = snd (ticker_only s)"
  by (simp add: tech_row_def ticker_only_def Let_def pct_below_high_def truthy_def)


section \<open>Filters\<close>










text \<open>
  C6. The prefilter and the hard filter are idempotent: applied to its own output, each
  returns that output unchanged, for every configuration, mode and frame.
\<close>

theorem filters_idempotent:
  "prefilter cfg for_buy (prefilter cfg for_buy df) = prefilter cfg for_buy df \<and>
   hard_filter cfg for_buy (hard_filter cfg for_buy df) = hard_filter cfg for_buy df"
  by (simp add: prefilter_def hard_filter_def empty_def)

section \<open>Scorer\<close>

lemma bump: "(if c then s + w else s) = s + (if c then w else (0::real))"
  by simp

lemma score_points: "score_buy_row row cfg = points (hits row cfg)"
  unfolding score_buy_row_def Let_def bump hits_def points_def weights_def
  by (simp only: zip_Cons_Cons zip_Nil list.map sum_list.Cons sum_list.Nil prod.case
      add_0_left add_0_right add.assoc)

lemma zip_points_bounds:
  "\<forall>w\<in>set ws. 0 \<le> w \<Longrightarrow>
     0 \<le> (\<Sum>(h, w) \<leftarrow> zip hs ws. if h then w else (0::real)) \<and>
     (\<Sum>(h, w) \<leftarrow> zip hs ws. if h then w else 0) \<le> sum_list ws"
proof (induction hs arbitrary: ws)
  case Nil
  then show ?case by (simp add: sum_list_nonneg)
next
  case (Cons h hs)
  show ?case
  proof (cases ws)
    case Nil
    then show ?thesis by simp
  next
    case (Cons w ws')
    with Cons.prems Cons.IH[of ws'] show ?thesis by auto
  qed
qed

lemma points_bounds: "0 \<le> points hs \<and> points hs \<le> 14"
proof -
  have "\<forall>w\<in>set weights. 0 \<le> w" by (simp add: weights_def)
  from zip_points_bounds[OF this, of hs] show ?thesis
    by (simp add: points_def weights_def)
qed

text \<open>
  C10. For every row and configuration the score lies between 0 and 14, and it is the
  sum of the weights of some of the fifteen signals: thirteen of weight 1 and two of
  weight 1/2.
\<close>

theorem score_range:
  "0 \<le> score_buy_row row cfg \<and> score_buy_row row cfg \<le> 14 \<and>
   (\<exists>hs. length hs = 15 \<and> score_buy_row row cfg = points hs)"
proof -
  have "length (hits row cfg) = 15" by (simp add: hits_def)
  then show ?thesis using points_bounds[of "hits row cfg"] score_points[of row cfg] by auto
qed

lemma score_decomposition:
  "score_buy_row r cfg =
     (\<Sum>s\<leftarrow>num_signals. num_points cfg s (get_num s r)) +
     (\<Sum>f\<leftarrow>flag_signals. flag_points (get_flag f r))"
  unfolding score_buy_row_def Let_def bump num_signals_def flag_signals_def flag_points_def
  by (simp only: list.map sum_list.Cons sum_list.Nil get_num.simps get_flag.simps
      num_points.simps add_0_left add_0_right ac_simps)

lemma score_set_num_unknown:
  "get_num s r = None \<Longrightarrow> score_buy_row r cfg \<le> score_buy_row (set_num s v r) cfg"
  apply (cases s; simp add: score_buy_row_def Let_def bump split del: if_split)
  apply (auto simp: truthy_def is_not_None_def le_cell_def ge_cell_def between_def)
  done

lemma score_set_num_unfavorable:
  "(case v of None \<Rightarrow> True | Some x \<Rightarrow> \<not> favorable cfg s x) \<Longrightarrow>
   score_buy_row (set_num s v r) cfg \<le> score_buy_row r cfg"
  apply (cases s; simp add: score_buy_row_def Let_def bump split del: if_split)
  apply (auto simp: truthy_def is_not_None_def le_cell_def ge_cell_def between_def
      split: option.splits)
  done

lemma score_set_flag_unknown:
  "get_flag f r = None \<Longrightarrow> score_buy_row r cfg \<le> score_buy_row (set_flag f v r) cfg"
  by (cases f; simp add: score_buy_row_def Let_def bump split del: if_split; simp)

lemma score_set_flag_unfavorable:
  "v \<noteq> Some True \<Longrightarrow> score_buy_row (set_flag f v r) cfg \<le> score_buy_row r cfg"
  by (cases f; simp add: score_buy_row_def Let_def bump split del: if_split; simp)

lemma num_points_unknown: "num_points cfg s None = 0"
  by (cases s) (simp_all add: truthy_def is_not_None_def)

lemma num_points_nonneg: "0 \<le> num_points cfg s v"
  by (cases s) simp_all

text \<open>
  C7. Scoring is monotone in the available signals. Giving a previously unknown signal
  a value (in particular one that meets its favourable threshold) never decreases the
  score; replacing the value of a signal by an unfavourable or an unknown one never
  increases it. The score is the sum of the points of the fifteen signals, and the points
  of an unknown signal are exactly zero and those of any signal are never negative.
\<close>

theorem scoring_monotone:
  "(get_num s r = None \<longrightarrow> score_buy_row r cfg \<le> score_buy_row (set_num s (Some x) r) cfg) \<and>
   (\<not> favorable cfg s x \<longrightarrow> score_buy_row (set_num s (Some x) r) cfg \<le> score_buy_row r cfg) \<and>
   score_buy_row (set_num s None r) cfg \<le> score_buy_row r cfg \<and>
   (get_flag f r = None \<longrightarrow> score_buy_row r cfg \<le> score_buy_row (set_flag f (Some b) r) cfg) \<and>
   score_buy_row (set_flag f (Some False) r) cfg \<le> score_buy_row r cfg \<and>
   score_buy_row (set_flag f None r) cfg \<le> score_buy_row r cfg \<and>
   score_buy_row r cfg =
     (\<Sum>s\<leftarrow>num_signals. num_points cfg s (get_num s r)) +
     (\<Sum>f\<leftarrow>flag_signals. flag_points (get_flag f r)) \<and>
   num_points cfg s None = 0 \<and> 0 \<le> num_points cfg s v \<and>
   flag_points None = 0 \<and> 0 \<le> flag_points fv"
  using score_set_num_unknown[where s = s and r = r and cfg = cfg and v = "Some x"]
    score_set_num_unfavorable[where s = s and r = r and cfg = cfg and v = "Some x"]
    score_set_num_unfavorable[where s = s and r = r and cfg = cfg and v = None]
    score_set_flag_unknown[where f = f and r = r and cfg = cfg and v = "Some b"]
    score_set_flag_unfavorable[where f = f and r = r and cfg = cfg and v = "Some False"]
    score_set_flag_unfavorable[where f = f and r = r and cfg = cfg and v = None]
    score_decomposition[of r cfg] num_points_unknown[of cfg s] num_points_nonneg[of cfg s v]
  by (simp add: flag_points_def)

text \<open>The all-unknown row under the default configuration: a PE of 20 is favourable and
  earns a point, a PE of 40 is unfavourable and earns none.\<close>

theorem scoring_monotone_witness:
  "get_num S_pe (snd (ticker_only ''X.NS'')) = None \<and>
   score_buy_row (snd (ticker_only ''X.NS'')) DEFAULT_CONFIG = 0 \<and>
   favorable DEFAULT_CONFIG S_pe 20 \<and>
   score_buy_row (set_num S_pe (Some 20) (snd (ticker_only ''X.NS''))) DEFAULT_CONFIG = 1 \<and>
   \<not> favorable DEFAULT_CONFIG S_pe 40 \<and>
   score_buy_row (set_num S_pe (Some 40) (snd (ticker_only ''X.NS''))) DEFAULT_CONFIG = 0 \<and>
   get_flag S_price_above_200d (snd (ticker_only ''X.NS'')) = None \<and>
   score_buy_row (set_flag S_price_above_200d (Some True) (snd (ticker_only ''X.NS'')))
     DEFAULT_CONFIG = 1"
  using scoring_monotone
    [of S_pe "snd (ticker_only ''X.NS'')" DEFAULT_CONFIG 20 S_price_above_200d True None None]
    scoring_monotone
    [of S_pe "snd (ticker_only ''X.NS'')" DEFAULT_CONFIG 40 S_price_above_200d True None None]
  by (simp add: score_buy_row_def Let_def DEFAULT_CONFIG_def ticker_only_def truthy_def
      is_not_None_def between_def le_cell_def ge_cell_def)

section \<open>Technical snapshot\<close>

lemma dropna_map_Some: "dropna (map Some xs) = xs"
  unfolding dropna_def by (induction xs) auto

lemma dropna_replicate_Some: "dropna (replicate n (Some x)) = replicate n x"
  unfolding dropna_def by (induction n) auto

lemma set_dropna: "set (dropna xs) = {x. Some x \<in> set xs}"
  unfolding dropna_def by (auto split: option.splits)

lemma length_rolling_mean: "length (rolling_mean w m xs) = length xs"
  by (simp add: rolling_mean_def)

lemma last_rolling_mean: "xs \<noteq> [] \<Longrightarrow> last (rolling_mean w m xs) = window_mean w m xs"
proof -
  assume ne: "xs \<noteq> []"
  then have "[0..<length xs] \<noteq> []" by simp
  then have "last (rolling_mean w m xs) = window_mean w m (take (Suc (last [0..<length xs])) xs)"
    unfolding rolling_mean_def by (rule last_map)
  moreover from ne have "last [0..<length xs] = length xs - 1"
    by (cases xs rule: rev_cases) auto
  ultimately show ?thesis using ne by simp
qed

lemma last_or_nan_rolling_mean:
  "last_or_nan (rolling_mean w m xs) = (if xs = [] then None else window_mean w m xs)"
  by (cases "xs = []") (simp_all add: last_or_nan_def rolling_mean_def last_rolling_mean[unfolded rolling_mean_def])

lemma window_mean_map_Some:
  "window_mean w m (map Some xs) =
     (if m \<le> min (length xs) w \<and> xs \<noteq> [] \<and> 0 < w
      then Some (sum_list (tail w xs) / real (min (length xs) w)) else None)"
proof -
  have "dropna (drop (length (map Some xs) - w) (map Some xs)) = tail w xs"
    by (simp add: tail_def drop_map dropna_map_Some)
  moreover have "length (tail w xs) = min (length xs) w" by (auto simp: tail_def)
  moreover have "tail w xs \<noteq> [] \<longleftrightarrow> xs \<noteq> [] \<and> 0 < w"
    by (cases xs) (auto simp: tail_def)
  ultimately show ?thesis unfolding window_mean_def Let_def by auto
qed

lemma last_or_nan_sma:
  "last_or_nan (simple_moving_average series w) =
     (if max 1 (w div 2) \<le> min (length series) w
      then Some (sum_list (tail w series) / real (min (length series) w)) else None)"
  unfolding simple_moving_average_def last_or_nan_rolling_mean window_mean_map_Some
  by auto

lemma snapshot_exists: "df \<noteq> [] \<Longrightarrow> \<exists>t. compute_technical_snapshot df = Some t"
  by (simp add: compute_technical_snapshot_def Let_def)

lemma snapshot_sma200:
  "compute_technical_snapshot df = Some t \<Longrightarrow>
   TechnicalSnapshot.sma200 t = last_or_nan (simple_moving_average (dropna (map Close df)) 200)"
  by (auto simp: compute_technical_snapshot_def Let_def split: if_splits)

lemma snapshot_sma50:
  "compute_technical_snapshot df = Some t \<Longrightarrow>
   TechnicalSnapshot.sma50 t = last_or_nan (simple_moving_average (dropna (map Close df)) 50)"
  by (auto simp: compute_technical_snapshot_def Let_def split: if_splits)

lemma snapshot_rsi14:
  "compute_technical_snapshot df = Some t \<Longrightarrow>
   TechnicalSnapshot.rsi14 t = last_or_nan (rsi (dropna (map Close df)) 14)"
  by (auto simp: compute_technical_snapshot_def Let_def split: if_splits)

lemma snapshot_sma:
  assumes "compute_technical_snapshot df = Some t" and "closes = dropna (map Close df)"
  shows "TechnicalSnapshot.sma200 t =
           (if 100 \<le> length closes
            then Some (sum_list (tail 200 closes) / real (min (length closes) 200)) else None)"
    and "TechnicalSnapshot.sma50 t =
           (if 25 \<le> length closes
            then Some (sum_list (tail 50 closes) / real (min (length closes) 50)) else None)"
  using assms by (auto simp: snapshot_sma200 snapshot_sma50 last_or_nan_sma)

text \<open>
  C3, as amended. The simple moving average reported in the snapshot is the value at the
  most recent row: the mean of the trailing \<open>min n W\<close> closes, where \<open>n\<close> is the number of
  closes. It is known exactly when at least \<open>max 1 (W div 2)\<close> closes exist, so a partial
  window suffices. In particular, for every price series of exactly 199 daily closes the
  snapshot's sma200 is known (the mean of all 199 closes) and so is sma50 (the mean of
  the last 50).
\<close>

theorem snapshot_sma_partial_window:
  assumes "compute_technical_snapshot df = Some t" and "closes = dropna (map Close df)"
  shows "TechnicalSnapshot.sma200 t =
           (if 100 \<le> length closes
            then Some (sum_list (tail 200 closes) / real (min (length closes) 200)) else None) \<and>
         TechnicalSnapshot.sma50 t =
           (if 25 \<le> length closes
            then Some (sum_list (tail 50 closes) / real (min (length closes) 50)) else None) \<and>
         (length closes = 199 \<longrightarrow>
            TechnicalSnapshot.sma200 t = Some (sum_list closes / 199) \<and>
            TechnicalSnapshot.sma50 t = Some (sum_list (tail 50 closes) / 50))"
  using snapshot_sma[OF assms] by (auto simp: tail_def)

lemma snapshot_199_bars:
  "compute_technical_snapshot
     (replicate 199 \<lparr> Close = Some 1, High = Some 1, Low = Some 1, Volume = Some 1 \<rparr>) =
   Some (the (compute_technical_snapshot
     (replicate 199 \<lparr> Close = Some 1, High = Some 1, Low = Some 1, Volume = Some 1 \<rparr>)))"
  using snapshot_exists
    [of "replicate 199 \<lparr> Close = Some 1, High = Some 1, Low = Some 1, Volume = Some 1 \<rparr>"]
  by auto

text \<open>199 bars that all close at 1.\<close>

theorem snapshot_sma_partial_window_witness:
  "length (replicate 199 (1::real)) = 199 \<and>
   TechnicalSnapshot.sma200 (the (compute_technical_snapshot
     (replicate 199 \<lparr> Close = Some 1, High = Some 1, Low = Some 1, Volume = Some 1 \<rparr>))) = Some 1 \<and>
   TechnicalSnapshot.sma50 (the (compute_technical_snapshot
     (replicate 199 \<lparr> Close = Some 1, High = Some 1, Low = Some 1, Volume = Some 1 \<rparr>))) = Some 1"
  using snapshot_sma_partial_window[OF snapshot_199_bars, of "replicate 199 1"]
  by (simp add: dropna_replicate_Some tail_def sum_list_replicate)

text \<open>
  C3 as stated fails: a series of exactly 199 daily closes (all equal to 1) has a known
  sma200 in its snapshot.
\<close>

theorem sma200_known_for_199_closes:
  "length (dropna (map Close
     (replicate 199 \<lparr> Close = Some 1, High = Some 1, Low = Some 1, Volume = Some 1 \<rparr>))) = 199 \<and>
   Option.bind (compute_technical_snapshot
     (replicate 199 \<lparr> Close = Some 1, High = Some 1, Low = Some 1, Volume = Some 1 \<rparr>))
     TechnicalSnapshot.sma200 = Some 1"
proof -
  let ?df = "replicate 199 \<lparr> Close = Some 1, High = Some 1, Low = Some 1, Volume = Some 1 \<rparr>"
  have closes: "dropna (map Close ?df) = replicate 199 1"
    by (simp add: dropna_replicate_Some)
  from snapshot_sma(1)[OF snapshot_199_bars closes[symmetric]]
  have "TechnicalSnapshot.sma200 (the (compute_technical_snapshot ?df)) = Some 1"
    by (simp add: tail_def sum_list_replicate)
  then have "Option.bind (compute_technical_snapshot ?df) TechnicalSnapshot.sma200 = Some 1"
    by (subst snapshot_199_bars) simp
  with closes show ?thesis by simp
qed

subsection \<open>RSI\<close>

lemma length_diff: "length (diff xs) = length xs"
  by (cases xs) simp_all

lemma diff_eq_Nil: "diff xs = [] \<longleftrightarrow> xs = []"
  by (cases xs) simp_all

lemma length_rsi_up: "length (rsi_up series) = length series"
  by (simp add: rsi_up_def clip_lower0_def length_diff)

lemma length_rsi_down: "length (rsi_down series) = length series"
  by (simp add: rsi_down_def clip_upper0_def length_diff)

lemma rsi_up_nonneg:
  assumes "Some x \<in> set (rsi_up series)"
  shows "0 \<le> x"
proof -
  from assms obtain d where "Some x = map_option (\<lambda>d. max d 0) d"
    by (auto simp: rsi_up_def clip_lower0_def)
  then show ?thesis by (cases d) auto
qed

lemma rsi_down_nonneg:
  assumes "Some x \<in> set (rsi_down series)"
  shows "0 \<le> x"
proof -
  from assms obtain d where "Some x = map_option (\<lambda>d. - min d 0) d"
    by (auto simp: rsi_down_def clip_upper0_def option.map_comp comp_def)
  then show ?thesis by (cases d) (auto simp: min_def split: if_splits)
qed

lemma window_mean_nonneg:
  assumes "\<And>x. Some x \<in> set xs \<Longrightarrow> 0 \<le> x" and "window_mean w m xs = Some v"
  shows "0 \<le> v"
proof -
  let ?obs = "dropna (drop (length xs - w) xs)"
  have "\<And>x. x \<in> set ?obs \<Longrightarrow> 0 \<le> x"
    using assms(1) by (auto simp: set_dropna dest: in_set_dropD)
  then have "0 \<le> sum_list ?obs" by (rule sum_list_nonneg)
  moreover from assms(2) have "v = sum_list ?obs / real (length ?obs)"
    by (auto simp: window_mean_def Let_def split: if_splits)
  ultimately show ?thesis by simp
qed

lemma last_or_nan_avg_gain:
  "last_or_nan (avg_gain series p) =
     (if series = [] then None else window_mean p p (rsi_up series))"
  using length_rsi_up[of series]
  by (cases "series = []") (auto simp: avg_gain_def last_or_nan_rolling_mean)

lemma last_or_nan_avg_loss:
  "last_or_nan (avg_loss series p) =
     (if series = [] then None else window_mean p p (rsi_down series))"
  using length_rsi_down[of series]
  by (cases "series = []") (auto simp: avg_loss_def last_or_nan_rolling_mean)

lemma last_or_nan_rsi:
  "last_or_nan (rsi series p) =
     rsi_cell (rs_cell (last_or_nan (avg_gain series p)) (last_or_nan (avg_loss series p)))"
proof (cases "series = []")
  case True
  then show ?thesis
    by (simp add: rsi_def avg_gain_def avg_loss_def rolling_mean_def rsi_up_def rsi_down_def
        clip_lower0_def clip_upper0_def last_or_nan_def rs_cell_def rsi_cell_def replace0_def)
next
  case False
  let ?g = "avg_gain series p" and ?l = "avg_loss series p"
  have len: "length ?g = length ?l"
    by (simp add: avg_gain_def avg_loss_def length_rolling_mean length_rsi_up length_rsi_down)
  have neg: "?g \<noteq> []" and nel: "?l \<noteq> []"
    using False
    by (auto simp: avg_gain_def avg_loss_def rolling_mean_def rsi_up_def rsi_down_def
        clip_lower0_def clip_upper0_def diff_eq_Nil)
  then have nez: "zip ?g ?l \<noteq> []" by (cases ?g; cases ?l) auto
  have "last (rsi series p) = (\<lambda>(g, l). rsi_cell (rs_cell g l)) (last (zip ?g ?l))"
    unfolding rsi_def using nez by (rule last_map)
  also have "last (zip ?g ?l) = (last ?g, last ?l)"
    using neg nel len by (rule last_zip)
  finally show ?thesis using neg nel nez by (simp add: last_or_nan_def rsi_def)
qed

lemma rsi_cell_zero_loss: "rsi_cell (rs_cell g (Some 0)) = None"
  by (simp add: rsi_cell_def rs_cell_def replace0_def split: option.splits)

lemma rsi_cell_range:
  assumes "rsi_cell (rs_cell g l) = Some v"
    and "\<And>a. g = Some a \<Longrightarrow> 0 \<le> a" and "\<And>b. l = Some b \<Longrightarrow> 0 \<le> b"
  shows "0 \<le> v \<and> v \<le> 100"
proof -
  from assms(1) obtain a b where g: "g = Some a" and l: "l = Some b" and b0: "b \<noteq> 0"
    and v: "v = 100 - 100 / (1 + a / b)"
    by (auto simp: rsi_cell_def rs_cell_def replace0_def split: option.splits if_splits)
  define q where "q = a / b"
  from assms(2)[OF g] assms(3)[OF l] b0 have q0: "0 \<le> q" by (simp add: q_def)
  then have pos: "0 < 1 + q" by simp
  from q0 have "0 \<le> 100 / (1 + q)" by simp
  moreover from pos q0 have "100 / (1 + q) \<le> 100" by (simp add: divide_le_eq)
  ultimately show ?thesis using v by (simp add: q_def)
qed

lemma snapshot_rsi_range:
  assumes "compute_technical_snapshot df = Some t" and "TechnicalSnapshot.rsi14 t = Some v"
  shows "0 \<le> v \<and> v \<le> 100"
proof -
  let ?c = "dropna (map Close df)"
  from assms have "rsi_cell (rs_cell (last_or_nan (avg_gain ?c 14)) (last_or_nan (avg_loss ?c 14)))
      = Some v"
    by (simp add: snapshot_rsi14 last_or_nan_rsi)
  moreover have "0 \<le> a" if "last_or_nan (avg_gain ?c 14) = Some a" for a
    using that window_mean_nonneg[of "rsi_up ?c" 14 14 a] rsi_up_nonneg[of _ ?c]
    by (auto simp: last_or_nan_avg_gain split: if_splits)
  moreover have "0 \<le> b" if "last_or_nan (avg_loss ?c 14) = Some b" for b
    using that window_mean_nonneg[of "rsi_down ?c" 14 14 b] rsi_down_nonneg[of _ ?c]
    by (auto simp: last_or_nan_avg_loss split: if_splits)
  ultimately show ?thesis by (rule rsi_cell_range)
qed

lemma snapshot_rsi_zero_loss:
  assumes "compute_technical_snapshot df = Some t"
    and "last_or_nan (avg_loss (dropna (map Close df)) 14) = Some 0"
  shows "TechnicalSnapshot.rsi14 t = None"
  using assms by (simp add: snapshot_rsi14 last_or_nan_rsi rsi_cell_zero_loss)

text \<open>
  C4. For every price series, whenever the snapshot's rsi14 is defined it lies within
  [0, 100], and whenever the 14-period average loss at the latest point is exactly zero
  the rsi14 is unknown.
\<close>

theorem rsi14_range_and_zero_loss:
  assumes "compute_technical_snapshot df = Some t"
  shows "(\<forall>v. TechnicalSnapshot.rsi14 t = Some v \<longrightarrow> 0 \<le> v \<and> v \<le> 100) \<and>
         (last_or_nan (avg_loss (dropna (map Close df)) 14) = Some 0 \<longrightarrow>
            TechnicalSnapshot.rsi14 t = None)"
  using snapshot_rsi_range[OF assms] snapshot_rsi_zero_loss[OF assms] by blast

lemma flat_closes:
  "dropna (map Close (map (\<lambda>c. \<lparr> Close = Some c, High = Some c, Low = Some c, Volume = Some 1 \<rparr>)
     [5, 5, 5, 5, 5, 5, 5, 5, 5, 5, 5, 5, 5, 5, 5])) =
   [5, 5, 5, 5, 5, 5, 5, 5, 5, 5, 5, 5, 5, 5, 5]"
  by (simp add: dropna_def)

lemma zigzag_closes:
  "dropna (map Close (map (\<lambda>c. \<lparr> Close = Some c, High = Some c, Low = Some c, Volume = Some 1 \<rparr>)
     [1, 2, 1, 2, 1, 2, 1, 2, 1, 2, 1, 2, 1, 2, 1])) =
   [1, 2, 1, 2, 1, 2, 1, 2, 1, 2, 1, 2, 1, 2, 1]"
  by (simp add: dropna_def)

lemma flat_avg_gain:
  "last_or_nan (avg_gain [5, 5, 5, 5, 5, 5, 5, 5, 5, 5, 5, 5, 5, 5, 5::real] 14) = Some 0"
  by (simp add: last_or_nan_avg_gain window_mean_def rsi_up_def clip_lower0_def dropna_def)

lemma flat_avg_loss:
  "last_or_nan (avg_loss [5, 5, 5, 5, 5, 5, 5, 5, 5, 5, 5, 5, 5, 5, 5::real] 14) = Some 0"
  by (simp add: last_or_nan_avg_loss window_mean_def rsi_down_def clip_upper0_def dropna_def)

lemma zigzag_avg_gain:
  "last_or_nan (avg_gain [1, 2, 1, 2, 1, 2, 1, 2, 1, 2, 1, 2, 1, 2, 1::real] 14) = Some (1 / 2)"
  by (simp add: last_or_nan_avg_gain window_mean_def rsi_up_def clip_lower0_def dropna_def)

lemma zigzag_avg_loss:
  "last_or_nan (avg_loss [1, 2, 1, 2, 1, 2, 1, 2, 1, 2, 1, 2, 1, 2, 1::real] 14) = Some (1 / 2)"
  by (simp add: last_or_nan_avg_loss window_mean_def rsi_down_def clip_upper0_def dropna_def)

lemma zigzag_rsi:
  "last_or_nan (rsi [1, 2, 1, 2, 1, 2, 1, 2, 1, 2, 1, 2, 1, 2, 1::real] 14) = Some 50"
  by (simp add: last_or_nan_rsi zigzag_avg_gain zigzag_avg_loss rsi_cell_def rs_cell_def
      replace0_def)

lemma snapshot_the: "df \<noteq> [] \<Longrightarrow> compute_technical_snapshot df = Some (the (compute_technical_snapshot df))"
  using snapshot_exists[of df] by auto

text \<open>Fifteen bars that all close at 5 (average gain and average loss are both zero, the
  RSI is unknown), and fifteen bars whose close alternates between 1 and 2 (the RSI is
  50).\<close>

theorem rsi14_range_and_zero_loss_witness:
  "last_or_nan (avg_gain (dropna (map Close
     (map (\<lambda>c. \<lparr> Close = Some c, High = Some c, Low = Some c, Volume = Some 1 \<rparr>)
        [5, 5, 5, 5, 5, 5, 5, 5, 5, 5, 5, 5, 5, 5, 5]))) 14) = Some 0 \<and>
   last_or_nan (avg_loss (dropna (map Close
     (map (\<lambda>c. \<lparr> Close = Some c, High = Some c, Low = Some c, Volume = Some 1 \<rparr>)
        [5, 5, 5, 5, 5, 5, 5, 5, 5, 5, 5, 5, 5, 5, 5]))) 14) = Some 0 \<and>
   TechnicalSnapshot.rsi14 (the (compute_technical_snapshot
     (map (\<lambda>c. \<lparr> Close = Some c, High = Some c, Low = Some c, Volume = Some 1 \<rparr>)
        [5, 5, 5, 5, 5, 5, 5, 5, 5, 5, 5, 5, 5, 5, 5]))) = None \<and>
   TechnicalSnapshot.rsi14 (the (compute_technical_snapshot
     (map (\<lambda>c. \<lparr> Close = Some c, High = Some c, Low = Some c, Volume = Some 1 \<rparr>)
        [1, 2, 1, 2, 1, 2, 1, 2, 1, 2, 1, 2, 1, 2, 1]))) = Some 50 \<and>
   (0::real) \<le> 50 \<and> (50::real) \<le> 100"
proof -
  let ?bar = "\<lambda>c::real. \<lparr> Close = Some c, High = Some c, Low = Some c, Volume = Some 1 \<rparr>"
  let ?flat = "map ?bar [5, 5, 5, 5, 5, 5, 5, 5, 5, 5, 5, 5, 5, 5, 5]"
  let ?zig = "map ?bar [1, 2, 1, 2, 1, 2, 1, 2, 1, 2, 1, 2, 1, 2, 1]"
  have flat: "compute_technical_snapshot ?flat = Some (the (compute_technical_snapshot ?flat))"
    by (rule snapshot_the) simp
  have zig: "compute_technical_snapshot ?zig = Some (the (compute_technical_snapshot ?zig))"
    by (rule snapshot_the) simp
  have gain0: "last_or_nan (avg_gain (dropna (map Close ?flat)) 14) = Some 0"
    by (simp only: flat_closes flat_avg_gain)
  have loss0: "last_or_nan (avg_loss (dropna (map Close ?flat)) 14) = Some 0"
    by (simp only: flat_closes flat_avg_loss)
  have rsi50: "TechnicalSnapshot.rsi14 (the (compute_technical_snapshot ?zig)) = Some 50"
    by (simp only: snapshot_rsi14[OF zig] zigzag_closes zigzag_rsi)
  from rsi14_range_and_zero_loss[OF flat] loss0
  have "TechnicalSnapshot.rsi14 (the (compute_technical_snapshot ?flat)) = None" by blast
  moreover from rsi14_range_and_zero_loss[OF zig] rsi50 have "(0::real) \<le> 50 \<and> (50::real) \<le> 100"
    by blast
  ultimately show ?thesis using gain0 loss0 rsi50 by blast
qed

section \<open>The pipeline\<close>

lemma set_slice_to: "set (slice_to n xs) \<subseteq> set xs"
  by (auto simp: slice_to_def dest: in_set_takeD)

lemma tech_map_of_tech_rows:
  "s \<in> set symbols \<Longrightarrow> tech_map_of (map (tech_row hist_all) symbols) s = Some (tech_row hist_all s)"
proof -
  assume s: "s \<in> set symbols"
  have "tech_map_of (map (tech_row hist_all) symbols) =
        map_of (map (\<lambda>k. (k, tech_row hist_all k)) (rev symbols))"
    by (simp add: tech_map_of_def rev_map comp_def ticker_tech_row)
  with s show ?thesis by (simp add: map_of_map_restrict)
qed

lemma enriched_rows_tech_rows:
  assumes "set syms \<subseteq> set symbols"
  shows "enriched_rows cfg fundamentals promoters (map (tech_row hist_all) symbols) syms =
         map (\<lambda>y. enrich_row (fundamentals y (use_yahoo_info_fallback (run cfg)))
                    (promoters (replace_NS y)) (tech_row hist_all y)) syms"
  using assms by (auto simp: enriched_rows_def Let_def tech_map_of_tech_rows)

lemma rows_prefilter_tech_rows:
  "rows (prefilter cfg for_buy (DataFrame (map (tech_row hist_all) symbols))) =
     (if for_buy then filter (prefilter_mask (technical cfg)) (map (\<lambda>s. snd (tech_row hist_all s)) symbols)
      else map (\<lambda>s. snd (tech_row hist_all s)) symbols)"
  by (auto simp: prefilter_def rows_DataFrame empty_DataFrame_tech_rows comp_def)

lemma tickers_prefilter_tech_rows:
  "map ticker (rows (prefilter cfg for_buy (DataFrame (map (tech_row hist_all) symbols)))) =
     (if for_buy then filter (\<lambda>s. prefilter_mask (technical cfg) (snd (tech_row hist_all s))) symbols
      else symbols)"
  by (simp add: rows_prefilter_tech_rows filter_map comp_def ticker_tech_row)

lemma symbols_for_funda_tech_rows:
  "symbols_for_funda cfg (prefilter cfg for_buy (DataFrame (map (tech_row hist_all) symbols))) =
     (let syms = (if for_buy
                  then filter (\<lambda>s. prefilter_mask (technical cfg) (snd (tech_row hist_all s))) symbols
                  else symbols)
      in case fundamentals_max_symbols (run cfg) of None \<Rightarrow> syms | Some n \<Rightarrow> slice_to n syms)"
proof -
  let ?P = "prefilter cfg for_buy (DataFrame (map (tech_row hist_all) symbols))"
  have eq: "(if \<not> empty ?P then map ticker (rows ?P) else []) = map ticker (rows ?P)"
  proof (cases "rows ?P = []")
    case True
    then show ?thesis by simp
  next
    case False
    then have "symbols \<noteq> []" by (auto simp: rows_prefilter_tech_rows split: if_splits)
    then have "\<not> empty (DataFrame (map (tech_row hist_all) symbols))"
      by (simp add: empty_DataFrame_tech_rows)
    then have "columns ?P \<noteq> []" by (auto simp: prefilter_def empty_def)
    with False show ?thesis by (simp add: empty_def)
  qed
  have eq2: "(if \<not> empty ?P then map ticker (rows ?P) else []) =
      (if for_buy
       then filter (\<lambda>s. prefilter_mask (technical cfg) (snd (tech_row hist_all s))) symbols
       else symbols)"
    unfolding eq by (rule tickers_prefilter_tech_rows)
  show ?thesis
    by (simp only: symbols_for_funda_def Let_def eq2)
qed

lemma symbols_for_funda_subset:
  "set (symbols_for_funda cfg (prefilter cfg for_buy (DataFrame (map (tech_row hist_all) symbols))))
     \<subseteq> set symbols"
proof -
  let ?k = "if for_buy
            then filter (\<lambda>s. prefilter_mask (technical cfg) (snd (tech_row hist_all s))) symbols
            else symbols"
  have k: "set ?k \<subseteq> set symbols" by auto
  have "set (slice_to n ?k) \<subseteq> set symbols" for n
    using set_slice_to[of n ?k] k by (rule subset_trans)
  with k show ?thesis
    unfolding symbols_for_funda_tech_rows Let_def
    by (cases "fundamentals_max_symbols (run cfg)") simp_all
qed

lemma rows_ensure_expected: "rows (ensure_expected df) = rows df"
  by (simp add: ensure_expected_def)


lemma columns_ensure_expected_ne: "columns (ensure_expected df) \<noteq> []"
  by (simp add: ensure_expected_def add_keys_eq_Nil expected_cols_def)

lemma columns_hard_filter: "columns (hard_filter cfg for_buy df) = columns df"
  by (simp add: hard_filter_def)

lemma rows_hard_filter:
  "columns df \<noteq> [] \<Longrightarrow>
   rows (hard_filter cfg for_buy df) =
     (if for_buy then filter (hard_mask cfg) (rows df) else rows df)"
  by (auto simp: hard_filter_def empty_def)

lemma rows_score_and_sort:
  "columns df \<noteq> [] \<Longrightarrow>
   rows (score_and_sort cfg df) = sort_key sort_rank (map (assign_score cfg) (rows df))"
  by (auto simp: score_and_sort_def empty_def)


text \<open>The frame that reaches the hard filter, and the rows and columns of the output.\<close>

lemma run_screen_stages:
  assumes "syms = symbols_for_funda cfg
                    (prefilter cfg for_buy (DataFrame (map (tech_row hist_all) symbols)))"
    and "df = ensure_expected
                (if syms \<noteq> []
                 then DataFrame (map (\<lambda>y. enrich_row (fundamentals y (use_yahoo_info_fallback (run cfg)))
                                         (promoters (replace_NS y)) (tech_row hist_all y)) syms)
                 else DataFrame (map (tech_row hist_all) symbols))"
  shows "run_screen symbols cfg for_buy hist_all fundamentals promoters =
           score_and_sort cfg (hard_filter cfg for_buy df)"
proof -
  have "set syms \<subseteq> set symbols" unfolding assms(1) by (rule symbols_for_funda_subset)
  then have "enriched_rows cfg fundamentals promoters (map (tech_row hist_all) symbols) syms =
         map (\<lambda>y. enrich_row (fundamentals y (use_yahoo_info_fallback (run cfg)))
                    (promoters (replace_NS y)) (tech_row hist_all y)) syms"
    by (rule enriched_rows_tech_rows)
  then show ?thesis
    unfolding run_screen_def Let_def assms(2) assms(1)[symmetric] by simp
qed

lemma run_screen_rows:
  assumes "syms = symbols_for_funda cfg
                    (prefilter cfg for_buy (DataFrame (map (tech_row hist_all) symbols)))"
  shows "rows (run_screen symbols cfg for_buy hist_all fundamentals promoters) =
           sort_key sort_rank (map (assign_score cfg)
             ((if for_buy then filter (hard_mask cfg) else (\<lambda>rs. rs))
                (if syms \<noteq> []
                 then map (\<lambda>y. snd (enrich_row (fundamentals y (use_yahoo_info_fallback (run cfg)))
                                       (promoters (replace_NS y)) (tech_row hist_all y))) syms
                 else map (\<lambda>s. snd (tech_row hist_all s)) symbols)))"
  unfolding run_screen_stages[OF assms refl]
  by (simp add: rows_score_and_sort columns_hard_filter columns_ensure_expected_ne
      rows_hard_filter rows_ensure_expected rows_DataFrame comp_def)

subsection \<open>Order of the output\<close>

lemma sort_rank_ranks_before:
  "score a \<noteq> None \<Longrightarrow> score b \<noteq> None \<Longrightarrow> sort_rank a \<le> sort_rank b \<Longrightarrow> ranks_before a b"
  by (auto simp: sort_rank_def desc_key_def ranks_before_def split: option.splits)

lemma score_assign_score: "score (assign_score cfg r) = Some (score_buy_row r cfg)"
  by (simp add: assign_score_def)

lemma score_buy_row_assign_score:
  "score_buy_row (assign_score cfg' r) cfg = score_buy_row r cfg"
  by (simp add: score_points hits_def assign_score_def)

lemma sorted_scored:
  "sorted_wrt ranks_before (sort_key sort_rank (map (assign_score cfg) rs))"
proof -
  let ?out = "sort_key sort_rank (map (assign_score cfg) rs)"
  have "sorted (map sort_rank ?out)" by (rule sorted_sort_key)
  then have sw: "sorted_wrt (\<lambda>a b. sort_rank a \<le> sort_rank b) ?out" by (simp add: sorted_map)
  have sc: "score a \<noteq> None" if "a \<in> set ?out" for a
    using that by (auto simp: score_assign_score)
  show ?thesis
  proof (rule sorted_wrt_mono_rel[OF _ sw])
    fix a b
    assume "a \<in> set ?out" and "b \<in> set ?out" and "sort_rank a \<le> sort_rank b"
    then show "ranks_before a b" using sc sort_rank_ranks_before by blast
  qed
qed

lemma scores_of_scored:
  "list_all (\<lambda>r. score r = Some (score_buy_row r cfg))
     (sort_key sort_rank (map (assign_score cfg) rs))"
  by (auto simp: list_all_iff score_assign_score score_buy_row_assign_score)

text \<open>
  C5. For every configuration (and every input and mode), the rows of the output are
  ordered by score descending, ties broken by market capitalization descending, with the
  rows of unknown market capitalization last within a tie group; the score of each row
  is the one the scorer assigns to it.
\<close>

theorem final_order:
  "sorted_wrt ranks_before (rows (run_screen symbols cfg for_buy hist_all fundamentals promoters)) \<and>
   list_all (\<lambda>r. score r = Some (score_buy_row r cfg))
     (rows (run_screen symbols cfg for_buy hist_all fundamentals promoters))"
  unfolding run_screen_rows[OF refl] using sorted_scored scores_of_scored by blast

subsection \<open>A concrete sell-mode run\<close>

lemma no_history_row: "snd (tech_row no_history s) = snd (ticker_only s)"
  by (rule snd_tech_row_no_history) (simp add: no_history_def)

lemma example_kept:
  "symbols_for_funda DEFAULT_CONFIG
     (prefilter DEFAULT_CONFIG False
        (DataFrame (map (tech_row no_history) [''A.NS'', ''B.NS'', ''C.NS'']))) =
   [''A.NS'', ''B.NS'', ''C.NS'']"
  unfolding symbols_for_funda_tech_rows
  by (simp add: Let_def DEFAULT_CONFIG_def slice_to_def)

lemma default_fallback: "use_yahoo_info_fallback (run DEFAULT_CONFIG) = False"
  by (simp add: DEFAULT_CONFIG_def)

lemma ticker_enrich_row: "ticker (snd (enrich_row f prom base)) = ticker (snd base)"
  by (simp add: enrich_row_def)

lemma ticker_assign_score: "ticker (assign_score cfg r) = ticker r"
  by (simp add: assign_score_def)

lemma market_cap_assign_score: "market_cap (assign_score cfg r) = market_cap r"
  by (simp add: assign_score_def)

lemma example_rank_A:
  "sort_rank (assign_score DEFAULT_CONFIG
     (snd (enrich_row (example_fundamentals ''A.NS'' False) None
        (tech_row no_history ''A.NS'')))) = ((False, - 1), (True, 0))"
  by (simp add: sort_rank_def desc_key_def score_assign_score market_cap_assign_score
      score_points hits_def points_def weights_def enrich_row_def no_history_row ticker_only_def
      example_fundamentals_def unknown_fundamentals_def DEFAULT_CONFIG_def
      truthy_def is_not_None_def between_def le_cell_def ge_cell_def)

lemma example_rank_B:
  "sort_rank (assign_score DEFAULT_CONFIG
     (snd (enrich_row (example_fundamentals ''B.NS'' False) None
        (tech_row no_history ''B.NS'')))) = ((False, - 1), (False, - 100))"
  by (simp add: sort_rank_def desc_key_def score_assign_score market_cap_assign_score
      score_points hits_def points_def weights_def enrich_row_def no_history_row ticker_only_def
      example_fundamentals_def unknown_fundamentals_def DEFAULT_CONFIG_def
      truthy_def is_not_None_def between_def le_cell_def ge_cell_def)

lemma example_rank_C:
  "sort_rank (assign_score DEFAULT_CONFIG
     (snd (enrich_row (example_fundamentals ''C.NS'' False) None
        (tech_row no_history ''C.NS'')))) = ((False, - 2), (False, - 5))"
  by (simp add: sort_rank_def desc_key_def score_assign_score market_cap_assign_score
      score_points hits_def points_def weights_def enrich_row_def no_history_row ticker_only_def
      example_fundamentals_def unknown_fundamentals_def DEFAULT_CONFIG_def
      truthy_def is_not_None_def between_def le_cell_def ge_cell_def)

lemma example_sell_tickers:
  "map ticker (rows (run_screen [''A.NS'', ''B.NS'', ''C.NS''] DEFAULT_CONFIG False no_history
          example_fundamentals no_promoters)) = [''C.NS'', ''B.NS'', ''A.NS'']"
  unfolding run_screen_rows[OF refl] example_kept
  by (simp add: example_rank_A example_rank_B example_rank_C ticker_assign_score
      ticker_enrich_row ticker_tech_row default_fallback no_promoters_def)

theorem final_order_witness:
  "map ticker (rows (run_screen [''A.NS'', ''B.NS'', ''C.NS''] DEFAULT_CONFIG False no_history
          example_fundamentals no_promoters)) = [''C.NS'', ''B.NS'', ''A.NS''] \<and>
   sorted_wrt ranks_before (rows (run_screen [''A.NS'', ''B.NS'', ''C.NS''] DEFAULT_CONFIG False
          no_history example_fundamentals no_promoters))"
  using final_order[of "[''A.NS'', ''B.NS'', ''C.NS'']" DEFAULT_CONFIG False no_history
      example_fundamentals no_promoters] example_sell_tickers
  by blast

subsection \<open>Sell mode\<close>

lemma sell_mode_kept:
  "symbols_for_funda cfg (prefilter cfg False (DataFrame (map (tech_row hist_all) symbols))) =
     (case fundamentals_max_symbols (run cfg) of None \<Rightarrow> symbols | Some n \<Rightarrow> slice_to n symbols)"
  by (simp add: symbols_for_funda_tech_rows)

lemma sell_mode_rows:
  assumes "kept = (case fundamentals_max_symbols (run cfg) of None \<Rightarrow> symbols
                   | Some n \<Rightarrow> slice_to n symbols)"
  shows "rows (run_screen symbols cfg False hist_all fundamentals promoters) =
           sort_key sort_rank (map (assign_score cfg)
             (if kept \<noteq> []
              then map (\<lambda>y. snd (enrich_row (fundamentals y (use_yahoo_info_fallback (run cfg)))
                                    (promoters (replace_NS y)) (tech_row hist_all y))) kept
              else map (\<lambda>s. snd (tech_row hist_all s)) symbols))"
  unfolding run_screen_rows[OF refl] sell_mode_kept assms by simp

lemma sell_mode_tickers:
  assumes "kept = (case fundamentals_max_symbols (run cfg) of None \<Rightarrow> symbols
                   | Some n \<Rightarrow> slice_to n symbols)"
  shows "mset (map ticker (rows (run_screen symbols cfg False hist_all fundamentals promoters))) =
           mset (if kept \<noteq> [] then kept else symbols)"
  unfolding sell_mode_rows[OF assms]
  by (simp add: comp_def multiset.map_comp ticker_assign_score ticker_enrich_row ticker_tech_row)

text \<open>
  C2, as amended. When the screen is run in sell mode, neither the prefilter nor the
  hard filter is applied. The output contains the fully enriched row of every symbol that
  the fundamentals cap retains (of every symbol when no cap is configured or the cap is
  not exceeded), and none of these rows is dropped; if the cap retains no symbol, the
  output contains the technical-only row of every symbol. The rows are not in phase-1
  order: they are scored and sorted by score and market capitalization, a stable sort of
  the pipeline order.
\<close>

theorem sell_mode_output:
  assumes "kept = (case fundamentals_max_symbols (run cfg) of None \<Rightarrow> symbols
                   | Some n \<Rightarrow> slice_to n symbols)"
  shows "rows (run_screen symbols cfg False hist_all fundamentals promoters) =
           sort_key sort_rank (map (assign_score cfg)
             (if kept \<noteq> []
              then map (\<lambda>y. snd (enrich_row (fundamentals y (use_yahoo_info_fallback (run cfg)))
                                    (promoters (replace_NS y)) (tech_row hist_all y))) kept
              else map (\<lambda>s. snd (tech_row hist_all s)) symbols)) \<and>
         mset (map ticker (rows (run_screen symbols cfg False hist_all fundamentals promoters))) =
           mset (if kept \<noteq> [] then kept else symbols)"
  using sell_mode_rows[OF assms] sell_mode_tickers[OF assms] by blast

lemma example_cap:
  "[''A.NS'', ''B.NS'', ''C.NS''] =
     (case fundamentals_max_symbols (run DEFAULT_CONFIG) of
        None \<Rightarrow> [''A.NS'', ''B.NS'', ''C.NS'']
      | Some n \<Rightarrow> slice_to n [''A.NS'', ''B.NS'', ''C.NS''])"
  by (simp add: DEFAULT_CONFIG_def slice_to_def)

text \<open>Three symbols under the default configuration, whose cap of 150 retains all.\<close>

theorem sell_mode_output_witness:
  "mset (map ticker (rows (run_screen [''A.NS'', ''B.NS'', ''C.NS''] DEFAULT_CONFIG False no_history
      example_fundamentals no_promoters))) = mset [''A.NS'', ''B.NS'', ''C.NS'']"
  using sell_mode_output[OF example_cap, of no_history example_fundamentals no_promoters,
      THEN conjunct2]
  by simp

lemma example_cap_two:
  "[''A.NS'', ''B.NS''] =
     (case fundamentals_max_symbols
             (run (DEFAULT_CONFIG\<lparr> run := (run DEFAULT_CONFIG)\<lparr> fundamentals_max_symbols := Some 2 \<rparr> \<rparr>)) of
        None \<Rightarrow> [''A.NS'', ''B.NS'', ''C.NS'']
      | Some n \<Rightarrow> slice_to n [''A.NS'', ''B.NS'', ''C.NS''])"
  by (simp add: slice_to_def)

text \<open>
  C2 as stated fails. In sell mode under the default configuration, three symbols whose
  scores are 1, 1 and 2 come out with the third symbol first and the first (of unknown
  market capitalization) last, not in pipeline order; and with a fundamentals cap of 2
  the output has two rows for three symbols.
\<close>

theorem sell_mode_resorts_and_caps:
  "map ticker (rows (run_screen [''A.NS'', ''B.NS'', ''C.NS''] DEFAULT_CONFIG False no_history
      example_fundamentals no_promoters)) = [''C.NS'', ''B.NS'', ''A.NS''] \<and>
   length (rows (run_screen [''A.NS'', ''B.NS'', ''C.NS'']
      (DEFAULT_CONFIG\<lparr> run := (run DEFAULT_CONFIG)\<lparr> fundamentals_max_symbols := Some 2 \<rparr> \<rparr>)
      False no_history example_fundamentals no_promoters)) = 2"
  using example_sell_tickers sell_mode_rows[OF example_cap_two]
  by simp

subsection \<open>Columns of the output\<close>

















subsection \<open>Degenerate runs\<close>









section \<open>Universe provider\<close>
















end
